theory Spec2Isabelle
  imports Main
begin

section \<open>The business-hours engine of \<open>time_utils.py\<close>\<close>

subsection \<open>Exceptions, times of day, timestamps\<close>

text \<open>
  The exception classes that the module or the \<open>datetime\<close> operations it calls can
  raise. All three are subclasses of \<open>Exception\<close>.
\<close>

datatype py_exception = ValueError | TypeError | OverflowError

text \<open>
  A naive \<open>datetime.time\<close>: the four fields Python compares, in that order.
\<close>

record py_time =
  t_hour :: nat
  t_minute :: nat
  t_second :: nat
  t_microsecond :: nat

text \<open>
  A \<open>tzinfo\<close> object. \<open>Timezone off\<close> is a fixed-offset \<open>datetime.timezone\<close>; two of
  them are equal exactly when their offsets are. \<open>ZoneInfo key off transitions\<close> is a
  \<open>zoneinfo.ZoneInfo\<close>: its key and the table it holds, the offset \<open>off\<close> in force before
  the first transition and, in ascending order, the local times from which another
  offset applies. It is compared by identity, and the objects of one key are one object
  (the constructor caches them), so equality of the key and the table is identity. A
  \<open>ZoneInfo\<close> is never equal to a \<open>timezone\<close>. Offsets and local times are durations in
  microseconds.
\<close>

datatype tzinfo_object = Timezone int | ZoneInfo string int "(int \<times> int) list"

text \<open>
  A \<open>datetime\<close>. The calendar date is held as its proleptic Gregorian ordinal
  (\<open>date.toordinal()\<close>, day 1 is 0001-01-01), which is how \<open>datetime\<close> itself adds
  days and finds the weekday; \<open>tzinfo = None\<close> is a naive timestamp.
\<close>

record datetime =
  ordinal :: int
  hour :: nat
  minute :: nat
  second :: nat
  microsecond :: nat
  tzinfo :: "tzinfo_object option"

text \<open>A \<open>timedelta\<close> is its total number of microseconds.\<close>

type_synonym timedelta = int

definition MAXORDINAL :: int where
  "MAXORDINAL = 3652059"

text \<open>The calendar arithmetic of \<open>date(y, m, d).toordinal()\<close>.\<close>

definition is_leap :: "int \<Rightarrow> bool" where
  "is_leap y = (y mod 4 = 0 \<and> (y mod 100 \<noteq> 0 \<or> y mod 400 = 0))"

definition days_before_year :: "int \<Rightarrow> int" where
  "days_before_year year =
     (let y = year - 1 in y * 365 + y div 4 - y div 100 + y div 400)"

definition DAYS_BEFORE_MONTH :: "int list" where
  "DAYS_BEFORE_MONTH = [0, 31, 59, 90, 120, 151, 181, 212, 243, 273, 304, 334]"

definition days_before_month :: "int \<Rightarrow> nat \<Rightarrow> int" where
  "days_before_month y m =
     DAYS_BEFORE_MONTH ! (m - 1) + (if 2 < m \<and> is_leap y then 1 else 0)"

definition ymd2ord :: "int \<Rightarrow> nat \<Rightarrow> nat \<Rightarrow> int" where
  "ymd2ord y m d = days_before_year y + days_before_month y m + int d"

text \<open>\<open>datetime(y, m, d, hh, mm)\<close>, naive, for months 1 to 12.\<close>

definition mk_datetime :: "int \<Rightarrow> nat \<Rightarrow> nat \<Rightarrow> nat \<Rightarrow> nat \<Rightarrow> datetime" where
  "mk_datetime y m d hh mm =
     \<lparr>ordinal = ymd2ord y m d, hour = hh, minute = mm, second = 0, microsecond = 0,
      tzinfo = None\<rparr>"

text \<open>\<open>datetime(y, m, d, hh, mm, tzinfo=timezone(off))\<close>, \<open>off\<close> in microseconds.\<close>

definition mk_aware :: "int \<Rightarrow> nat \<Rightarrow> nat \<Rightarrow> nat \<Rightarrow> nat \<Rightarrow> int \<Rightarrow> datetime" where
  "mk_aware y m d hh mm off = (mk_datetime y m d hh mm)\<lparr>tzinfo := Some (Timezone off)\<rparr>"

definition mk_time :: "nat \<Rightarrow> nat \<Rightarrow> py_time" where
  "mk_time hh mm = \<lparr>t_hour = hh, t_minute = mm, t_second = 0, t_microsecond = 0\<rparr>"

text \<open>Python's lexicographic order on tuples of integers.\<close>

fun tuple_lt :: "int list \<Rightarrow> int list \<Rightarrow> bool" where
  "tuple_lt (x # xs) (y # ys) = (x < y \<or> (x = y \<and> tuple_lt xs ys))"
| "tuple_lt [] (y # ys) = True"
| "tuple_lt xs [] = False"

definition time_state :: "py_time \<Rightarrow> int list" where
  "time_state t = [int (t_hour t), int (t_minute t), int (t_second t), int (t_microsecond t)]"

definition time_lt :: "py_time \<Rightarrow> py_time \<Rightarrow> bool" where
  "time_lt a b = tuple_lt (time_state a) (time_state b)"

definition time_ge :: "py_time \<Rightarrow> py_time \<Rightarrow> bool" where
  "time_ge a b = (\<not> tuple_lt (time_state a) (time_state b))"

definition datetime_state :: "datetime \<Rightarrow> int list" where
  "datetime_state dt =
     [ordinal dt, int (hour dt), int (minute dt), int (second dt), int (microsecond dt)]"

text \<open>
  The wall-clock reading as a duration since day 0, as \<open>datetime.__sub__\<close> and
  \<open>datetime.__add__\<close> form it.
\<close>

definition wall_clock :: "datetime \<Rightarrow> timedelta" where
  "wall_clock dt =
     (((ordinal dt * 24 + int (hour dt)) * 60 + int (minute dt)) * 60 + int (second dt))
       * 1000000 + int (microsecond dt)"

text \<open>
  \<open>dt.utcoffset()\<close>: \<open>None\<close> for a naive timestamp, otherwise what the \<open>tzinfo\<close> object
  answers for the wall clock of \<open>dt\<close>.
\<close>

fun zone_offset :: "int \<Rightarrow> (int \<times> int) list \<Rightarrow> timedelta \<Rightarrow> int" where
  "zone_offset off [] local = off"
| "zone_offset off ((since, off') # transitions) local =
     (if since \<le> local then zone_offset off' transitions local else off)"

fun tz_utcoffset :: "tzinfo_object \<Rightarrow> datetime \<Rightarrow> int" where
  "tz_utcoffset (Timezone off) dt = off"
| "tz_utcoffset (ZoneInfo key off transitions) dt = zone_offset off transitions (wall_clock dt)"

definition utcoffset :: "datetime \<Rightarrow> int option" where
  "utcoffset dt = (case tzinfo dt of None \<Rightarrow> None | Some tz \<Rightarrow> Some (tz_utcoffset tz dt))"

text \<open>
  \<open>a - b\<close> on timestamps: the difference of the wall clocks when both carry the same
  \<open>tzinfo\<close> (or none), \<open>TypeError\<close> when exactly one is naive, the difference of the
  instants otherwise.
\<close>

definition datetime_sub :: "datetime \<Rightarrow> datetime \<Rightarrow> py_exception + timedelta" where
  "datetime_sub a b =
     (let base = wall_clock a - wall_clock b in
      if tzinfo a = tzinfo b then Inr base
      else case (utcoffset a, utcoffset b) of
             (Some myoff, Some otoff) \<Rightarrow> Inr (base + otoff - myoff)
           | _ \<Rightarrow> Inl TypeError)"

text \<open>
  \<open>a < b\<close> and \<open>a >= b\<close> on timestamps: the fields are compared when both carry the same
  \<open>tzinfo\<close> (or none) or the same UTC offset; comparing a naive with an aware timestamp
  raises \<open>TypeError\<close>; two different offsets are compared through the sign of \<open>a - b\<close>.
\<close>

definition datetime_lt :: "datetime \<Rightarrow> datetime \<Rightarrow> py_exception + bool" where
  "datetime_lt a b =
     (if tzinfo a = tzinfo b \<or> utcoffset a = utcoffset b
      then Inr (tuple_lt (datetime_state a) (datetime_state b))
      else case datetime_sub a b of Inl e \<Rightarrow> Inl e | Inr diff \<Rightarrow> Inr (diff < 0))"

definition datetime_ge :: "datetime \<Rightarrow> datetime \<Rightarrow> py_exception + bool" where
  "datetime_ge a b =
     (case datetime_lt a b of Inl e \<Rightarrow> Inl e | Inr lt \<Rightarrow> Inr (\<not> lt))"

text \<open>\<open>min(a, b)\<close>: the second argument only when it is strictly smaller.\<close>

definition datetime_min :: "datetime \<Rightarrow> datetime \<Rightarrow> py_exception + datetime" where
  "datetime_min a b =
     (case datetime_lt b a of Inl e \<Rightarrow> Inl e | Inr lt \<Rightarrow> Inr (if lt then b else a))"

text \<open>
  \<open>dt + timedelta(days=n)\<close>: the date moves, the time of day and \<open>tzinfo\<close> stay;
  a date past 9999-12-31 (or before 0001-01-01) raises \<open>OverflowError\<close>.
\<close>

definition add_days :: "datetime \<Rightarrow> int \<Rightarrow> py_exception + datetime" where
  "add_days dt n =
     (let d = ordinal dt + n in
      if 0 < d \<and> d \<le> MAXORDINAL then Inr (dt\<lparr>ordinal := d\<rparr>) else Inl OverflowError)"

definition replace_time :: "datetime \<Rightarrow> nat \<Rightarrow> nat \<Rightarrow> nat \<Rightarrow> nat \<Rightarrow> datetime" where
  "replace_time dt h m s us = dt\<lparr>hour := h, minute := m, second := s, microsecond := us\<rparr>"

text \<open>\<open>dt.weekday()\<close>: Monday is 0, Sunday is 6.\<close>

definition weekday :: "datetime \<Rightarrow> int" where
  "weekday dt = (ordinal dt + 6) mod 7"

subsection \<open>The configuration\<close>

record BusinessHoursConfig =
  config_start :: py_time
  config_end :: py_time

definition default_config :: BusinessHoursConfig where
  "default_config = \<lparr>config_start = mk_time 7 0, config_end = mk_time 22 0\<rparr>"

definition get_business_start :: "BusinessHoursConfig \<Rightarrow> py_time" where
  "get_business_start cfg = config_start cfg"

definition get_business_end :: "BusinessHoursConfig \<Rightarrow> py_time" where
  "get_business_end cfg = config_end cfg"

text \<open>
  \<open>set_business_hours\<close> acts on the module's configuration object: the result is the
  outcome of the call (the exception raised, or \<open>None\<close>) and the configuration after it.
\<close>

definition set_business_hours ::
  "py_time \<Rightarrow> py_time \<Rightarrow> BusinessHoursConfig \<Rightarrow> (py_exception + unit) \<times> BusinessHoursConfig" where
  "set_business_hours start end' cfg =
     (if time_ge start end' then (Inl ValueError, cfg)
      else (Inr (), cfg\<lparr>config_start := start, config_end := end'\<rparr>))"

subsection \<open>Segmentation\<close>

definition next_business_start ::
  "BusinessHoursConfig \<Rightarrow> datetime \<Rightarrow> py_exception + datetime" where
  "next_business_start cfg dt =
     (case add_days dt 1 of
        Inl e \<Rightarrow> Inl e
      | Inr next_day \<Rightarrow>
          (let start = get_business_start cfg
           in Inr (replace_time next_day (t_hour start) (t_minute start) 0 0)))"

text \<open>
  The \<open>while\<close> loop of \<open>business_hours_breakdown\<close>, with the cursor \<open>current\<close> and the
  list \<open>segments\<close> built so far as arguments.
\<close>

function business_hours_breakdown_loop ::
  "BusinessHoursConfig \<Rightarrow> datetime \<Rightarrow> datetime \<Rightarrow> (datetime \<times> datetime) list
     \<Rightarrow> py_exception + (datetime \<times> datetime) list" where
  "business_hours_breakdown_loop cfg current end' segments =
     (case datetime_lt current end' of
        Inl e \<Rightarrow> Inl e
      | Inr False \<Rightarrow> Inr segments
      | Inr True \<Rightarrow>
          if 5 \<le> weekday current then
            (case next_business_start cfg current of
               Inl e \<Rightarrow> Inl e
             | Inr c \<Rightarrow> business_hours_breakdown_loop cfg c end' segments)
          else
            (let start_time = get_business_start cfg;
                 end_time = get_business_end cfg;
                 day_start = replace_time current (t_hour start_time) (t_minute start_time) 0 0;
                 day_end = replace_time current (t_hour end_time) (t_minute end_time) 0 0
             in case datetime_lt current day_start of
                  Inl e \<Rightarrow> Inl e
                | Inr early \<Rightarrow>
                    (let current1 = (if early then day_start else current)
                     in case datetime_ge current1 day_end of
                          Inl e \<Rightarrow> Inl e
                        | Inr True \<Rightarrow>
                            (case next_business_start cfg current1 of
                               Inl e \<Rightarrow> Inl e
                             | Inr c \<Rightarrow> business_hours_breakdown_loop cfg c end' segments)
                        | Inr False \<Rightarrow>
                            (case datetime_min day_end end' of
                               Inl e \<Rightarrow> Inl e
                             | Inr segment_end \<Rightarrow>
                                 (case next_business_start cfg current1 of
                                    Inl e \<Rightarrow> Inl e
                                  | Inr c \<Rightarrow>
                                      business_hours_breakdown_loop cfg c end'
                                        (segments @ [(current1, segment_end)]))))))"
  by pat_completeness auto

termination
  by (relation "measure (\<lambda>(cfg, current, end', segments). nat (MAXORDINAL - ordinal current))")
     (auto simp: next_business_start_def add_days_def replace_time_def Let_def
           split: sum.splits if_splits)

definition business_hours_breakdown ::
  "BusinessHoursConfig \<Rightarrow> datetime \<Rightarrow> datetime \<Rightarrow> py_exception + (datetime \<times> datetime) list" where
  "business_hours_breakdown cfg start end' = business_hours_breakdown_loop cfg start end' []"

subsection \<open>Aggregation\<close>

text \<open>The \<open>for\<close> loop of \<open>business_hours_delta\<close>, with the running \<open>total\<close>.\<close>

fun sum_segments ::
  "(datetime \<times> datetime) list \<Rightarrow> timedelta \<Rightarrow> py_exception + timedelta" where
  "sum_segments [] total' = Inr total'"
| "sum_segments ((seg_start, seg_end) # rest) total' =
     (case datetime_sub seg_end seg_start of
        Inl e \<Rightarrow> Inl e
      | Inr d \<Rightarrow> sum_segments rest (total' + d))"

definition business_hours_delta ::
  "BusinessHoursConfig \<Rightarrow> datetime \<Rightarrow> datetime \<Rightarrow> py_exception + timedelta" where
  "business_hours_delta cfg start end' =
     (case datetime_ge start end' of
        Inl e \<Rightarrow> Inl e
      | Inr True \<Rightarrow> Inr 0
      | Inr False \<Rightarrow>
          (case business_hours_breakdown cfg start end' of
             Inl e \<Rightarrow> Inl e
           | Inr segments \<Rightarrow> sum_segments segments 0))"

definition hours_breakdown ::
  "BusinessHoursConfig \<Rightarrow> datetime \<Rightarrow> datetime \<Rightarrow> py_exception + timedelta \<times> timedelta" where
  "hours_breakdown cfg start end' =
     (case datetime_ge start end' of
        Inl e \<Rightarrow> Inl e
      | Inr True \<Rightarrow> Inr (0, 0)
      | Inr False \<Rightarrow>
          (case datetime_sub end' start of
             Inl e \<Rightarrow> Inl e
           | Inr total' \<Rightarrow>
               (case business_hours_delta cfg start end' of
                  Inl e \<Rightarrow> Inl e
                | Inr business \<Rightarrow> Inr (business, total' - business))))"

subsection \<open>The tolerant entry point\<close>

text \<open>
  The values a caller can pass for \<open>start\<close> and \<open>end\<close>. \<open>PyObject t\<close> is an object of
  any other type, given by what its truth test does: \<open>t\<close> is the boolean it answers or
  the exception it raises. \<open>truthy v\<close> is Python's truth test of \<open>v\<close>: \<open>None\<close>, \<open>False\<close>,
  \<open>0\<close> and the empty string are falsy, a \<open>datetime\<close> never is.
\<close>

datatype py_value =
  PyNone | PyBool bool | PyInt int | PyStr string | PyDatetime datetime
  | PyObject "py_exception + bool"

fun truthy :: "py_value \<Rightarrow> py_exception + bool" where
  "truthy PyNone = Inr False"
| "truthy (PyBool b) = Inr b"
| "truthy (PyInt n) = Inr (n \<noteq> 0)"
| "truthy (PyStr s) = Inr (s \<noteq> [])"
| "truthy (PyDatetime dt) = Inr True"
| "truthy (PyObject t) = t"

text \<open>
  The two parsers of the standard library are parameters of the model:
  \<open>fromisoformat s\<close> and \<open>strptime s fmt\<close> give the parsed timestamp, or \<open>None\<close> where
  Python raises \<open>ValueError\<close>.
\<close>

record datetime_lib =
  fromisoformat :: "string \<Rightarrow> datetime option"
  strptime :: "string \<Rightarrow> string \<Rightarrow> datetime option"

text \<open>
  The float that is returned: the literal \<open>0.0\<close>, or
  \<open>round(delta.total_seconds() / 3600.0 + 1e-9, 2)\<close> for a duration \<open>delta\<close>, whose
  floating-point value is left uninterpreted (it may be \<open>0.0\<close> as well).
\<close>

datatype py_float = Float_zero | Rounded_hours timedelta

text \<open>
  What the module's logger receives: \<open>logger.error(msg)\<close>, or \<open>logger.exception(msg)\<close>
  with the exception being handled. Both are records of level \<open>ERROR\<close>.
\<close>

datatype log_record = Log_error string | Log_exception string py_exception

fun levelname :: "log_record \<Rightarrow> string" where
  "levelname (Log_error msg) = ''ERROR''"
| "levelname (Log_exception msg e) = ''ERROR''"

definition to_datetime :: "datetime_lib \<Rightarrow> py_value \<Rightarrow> py_exception + datetime" where
  "to_datetime lib v =
     (case v of
        PyDatetime dt \<Rightarrow> Inr dt
      | PyStr s \<Rightarrow>
          (case fromisoformat lib s of
             Some dt \<Rightarrow> Inr dt
           | None \<Rightarrow>
               (case strptime lib s ''%Y-%m-%d %H:%M'' of
                  Some dt \<Rightarrow> Inr dt
                | None \<Rightarrow> Inl ValueError))
      | _ \<Rightarrow> Inl TypeError)"

text \<open>The body of the \<open>try\<close> block: the value returned with the records logged, or the
  exception that leaves the block.\<close>

definition calculate_hours_try ::
  "datetime_lib \<Rightarrow> BusinessHoursConfig \<Rightarrow> py_value \<Rightarrow> py_value
     \<Rightarrow> py_exception + py_float \<times> log_record list" where
  "calculate_hours_try lib cfg start end' =
     (case to_datetime lib start of
        Inl e \<Rightarrow> Inl e
      | Inr start_dt \<Rightarrow>
          (case to_datetime lib end' of
             Inl e \<Rightarrow> Inl e
           | Inr end_dt \<Rightarrow>
               if tzinfo start_dt \<noteq> None \<and> tzinfo end_dt \<noteq> None
                  \<and> tzinfo start_dt \<noteq> tzinfo end_dt
               then Inr (Float_zero, [Log_error ''start and end time zones differ''])
               else
                 (case datetime_lt end_dt start_dt of
                    Inl e \<Rightarrow> Inl e
                  | Inr True \<Rightarrow> Inl ValueError
                  | Inr False \<Rightarrow>
                      (case business_hours_delta cfg start_dt end_dt of
                         Inl e \<Rightarrow> Inl e
                       | Inr delta \<Rightarrow> Inr (Rounded_hours delta, [])))))"

text \<open>
  \<open>calculate_hours\<close>: the test \<open>not start or not end\<close>, which stands before the \<open>try\<close>
  block (\<open>end\<close> is tested only when \<open>start\<close> is truthy, and an exception of either truth
  test reaches the caller), then the \<open>try\<close> block under \<open>except Exception\<close>, which
  catches every exception of the model. \<open>Inl\<close> is an exception reaching the caller.
\<close>

definition calculate_hours ::
  "datetime_lib \<Rightarrow> BusinessHoursConfig \<Rightarrow> py_value \<Rightarrow> py_value
     \<Rightarrow> py_exception + py_float \<times> log_record list" where
  "calculate_hours lib cfg start end' =
     (case truthy start of
        Inl e \<Rightarrow> Inl e
      | Inr False \<Rightarrow> Inr (Float_zero, [])
      | Inr True \<Rightarrow>
          (case truthy end' of
             Inl e \<Rightarrow> Inl e
           | Inr False \<Rightarrow> Inr (Float_zero, [])
           | Inr True \<Rightarrow>
               (case calculate_hours_try lib cfg start end' of
                  Inr r \<Rightarrow> Inr r
                | Inl e \<Rightarrow> Inr (Float_zero, [Log_exception ''Error calculating hours'' e]))))"

text \<open>A library whose parsers reject every string, for concrete runs on \<open>datetime\<close>
  arguments and on malformed strings.\<close>

definition rejecting_lib :: datetime_lib where
  "rejecting_lib = \<lparr>fromisoformat = (\<lambda>s. None), strptime = (\<lambda>s fmt. None)\<rparr>"

text \<open>
  Two zones of the tz database for concrete runs: \<open>ZoneInfo("UTC")\<close>, and
  \<open>ZoneInfo("America/New_York")\<close> with its 2024 rules (five hours behind UTC, four from
  03:00 on 10 March until 02:00 on 3 November).
\<close>

definition zone_UTC :: tzinfo_object where
  "zone_UTC = ZoneInfo ''UTC'' 0 []"

definition zone_New_York :: tzinfo_object where
  "zone_New_York =
     ZoneInfo ''America/New_York'' (- 18000000000)
       [(wall_clock (mk_datetime 2024 3 10 3 0), - 14400000000),
        (wall_clock (mk_datetime 2024 11 3 2 0), - 18000000000)]"

definition mk_zoned ::
  "int \<Rightarrow> nat \<Rightarrow> nat \<Rightarrow> nat \<Rightarrow> nat \<Rightarrow> tzinfo_object \<Rightarrow> datetime" where
  "mk_zoned y m d hh mm tz = (mk_datetime y m d hh mm)\<lparr>tzinfo := Some tz\<rparr>"

text \<open>The configuration after a sequence of \<open>set_business_hours\<close> calls.\<close>

fun after_calls :: "(py_time \<times> py_time) list \<Rightarrow> BusinessHoursConfig \<Rightarrow> BusinessHoursConfig" where
  "after_calls [] cfg = cfg"
| "after_calls ((a, b) # calls) cfg = after_calls calls (snd (set_business_hours a b cfg))"

section \<open>Properties\<close>

subsection \<open>Configuration\<close>

lemma set_business_hours_keeps_valid:
  "\<not> time_ge (config_start cfg) (config_end cfg) \<Longrightarrow>
   \<not> time_ge (config_start (snd (set_business_hours a b cfg)))
            (config_end (snd (set_business_hours a b cfg)))"
  by (simp add: set_business_hours_def)

lemma after_calls_keeps_valid:
  "\<not> time_ge (config_start cfg) (config_end cfg) \<Longrightarrow>
   \<not> time_ge (config_start (after_calls calls cfg)) (config_end (after_calls calls cfg))"
proof (induction calls arbitrary: cfg)
  case Nil
  then show ?case by simp
next
  case (Cons call calls)
  obtain a b where call: "call = (a, b)" by (cases call)
  from Cons.prems have "\<not> time_ge (config_start (snd (set_business_hours a b cfg)))
            (config_end (snd (set_business_hours a b cfg)))"
    by (rule set_business_hours_keeps_valid)
  then show ?case unfolding call by (simp add: Cons.IH)
qed

lemma default_config_valid:
  "\<not> time_ge (config_start default_config) (config_end default_config)"
  by (simp add: default_config_def mk_time_def time_ge_def time_state_def)

text \<open>
  C7. \<open>set_business_hours a b\<close> raises (\<open>ValueError\<close>) exactly when \<open>a >= b\<close>, and then
  the configuration is the one before the call; when it succeeds, \<open>get_business_start\<close>
  and \<open>get_business_end\<close> return \<open>a\<close> and \<open>b\<close>. Whatever sequence of calls is made from
  the initial 07:00 to 22:00 configuration, the getters never show a pair with
  \<open>start >= end\<close>.
\<close>

theorem set_business_hours_rejects_exactly_inverted:
  "(fst (set_business_hours a b cfg) = Inl ValueError \<longleftrightarrow> time_ge a b) \<and>
   (fst (set_business_hours a b cfg) = Inr () \<longleftrightarrow> \<not> time_ge a b) \<and>
   (time_ge a b \<longrightarrow> snd (set_business_hours a b cfg) = cfg) \<and>
   (\<not> time_ge a b \<longrightarrow>
      get_business_start (snd (set_business_hours a b cfg)) = a \<and>
      get_business_end (snd (set_business_hours a b cfg)) = b) \<and>
   \<not> time_ge (get_business_start (after_calls calls default_config))
             (get_business_end (after_calls calls default_config))"
  using after_calls_keeps_valid [OF default_config_valid, of calls]
  by (simp add: set_business_hours_def get_business_start_def get_business_end_def)

theorem set_business_hours_rejects_exactly_inverted_witness:
  "\<not> time_ge (mk_time 9 0) (mk_time 17 0) \<and>
   fst (set_business_hours (mk_time 9 0) (mk_time 17 0) default_config) = Inr () \<and>
   get_business_start (snd (set_business_hours (mk_time 9 0) (mk_time 17 0) default_config))
     = mk_time 9 0 \<and>
   get_business_end (snd (set_business_hours (mk_time 9 0) (mk_time 17 0) default_config))
     = mk_time 17 0 \<and>
   time_ge (mk_time 17 0) (mk_time 9 0) \<and>
   fst (set_business_hours (mk_time 17 0) (mk_time 9 0) default_config) = Inl ValueError \<and>
   snd (set_business_hours (mk_time 17 0) (mk_time 9 0) default_config) = default_config"
proof -
  have ok: "\<not> time_ge (mk_time 9 0) (mk_time 17 0)"
    by (simp add: time_ge_def time_state_def mk_time_def)
  have bad: "time_ge (mk_time 17 0) (mk_time 9 0)"
    by (simp add: time_ge_def time_state_def mk_time_def)
  show ?thesis
    using ok bad
      set_business_hours_rejects_exactly_inverted
        [of "mk_time 9 0" "mk_time 17 0" default_config "[]"]
      set_business_hours_rejects_exactly_inverted
        [of "mk_time 17 0" "mk_time 9 0" default_config "[]"]
    by simp
qed

subsection \<open>Segmentation\<close>

text \<open>
  C1, at an input where the code departs from it. Monday 2024-01-08 from 05:00 to 06:00
  lies wholly before the 07:00 opening of the default window, so the breakdown should
  be empty. The cursor is snapped forward to 07:00 and the loop does not test it
  against \<open>end\<close> again before emitting: the result is the single pair
  (07:00, 06:00).
\<close>

theorem business_hours_breakdown_before_opening:
  "weekday (mk_datetime 2024 1 8 5 0) = 0 \<and>
   business_hours_breakdown default_config (mk_datetime 2024 1 8 5 0) (mk_datetime 2024 1 8 6 0)
     = Inr [(mk_datetime 2024 1 8 7 0, mk_datetime 2024 1 8 6 0)]"
  by code_simp

text \<open>
  C3, at an input where the code departs from it. With the window set to 09:00 to
  17:00, Friday 2024-01-05 from 08:00 to 08:30 yields one pair whose first component,
  09:00, is not before its second, 08:30.
\<close>

theorem business_hours_breakdown_inverted_segment:
  "business_hours_breakdown \<lparr>config_start = mk_time 9 0, config_end = mk_time 17 0\<rparr>
       (mk_datetime 2024 1 5 8 0) (mk_datetime 2024 1 5 8 30)
     = Inr [(mk_datetime 2024 1 5 9 0, mk_datetime 2024 1 5 8 30)] \<and>
   datetime_lt (mk_datetime 2024 1 5 9 0) (mk_datetime 2024 1 5 8 30) = Inr False"
  by code_simp

lemma tuple_lt_irrefl: "\<not> tuple_lt xs xs"
  by (induction xs) auto

lemma datetime_lt_same_tz:
  "tzinfo a = tzinfo b \<Longrightarrow>
   datetime_lt a b = Inr (tuple_lt (datetime_state a) (datetime_state b))"
  by (simp add: datetime_lt_def)

lemma datetime_ge_same_tz:
  "tzinfo a = tzinfo b \<Longrightarrow>
   datetime_ge a b = Inr (\<not> tuple_lt (datetime_state a) (datetime_state b))"
  by (simp add: datetime_ge_def datetime_lt_def)

lemma datetime_min_same_tz:
  "tzinfo a = tzinfo b \<Longrightarrow>
   datetime_min a b = Inr (if tuple_lt (datetime_state b) (datetime_state a) then b else a)"
  by (simp add: datetime_min_def datetime_lt_def)

lemma next_business_start_Inr:
  "next_business_start cfg dt = Inr c \<Longrightarrow>
   c = replace_time (dt\<lparr>ordinal := ordinal dt + 1\<rparr>)
         (t_hour (config_start cfg)) (t_minute (config_start cfg)) 0 0"
  by (auto simp: next_business_start_def add_days_def get_business_start_def Let_def
           split: if_splits)

lemma tuple_lt_ordinal:
  "tuple_lt (datetime_state a) (datetime_state b) \<Longrightarrow> ordinal a \<le> ordinal b"
  by (auto simp: datetime_state_def)

lemma replace_time_fields [simp]:
  "tzinfo (replace_time dt h m s us) = tzinfo dt"
  "ordinal (replace_time dt h m s us) = ordinal dt"
  "replace_time (replace_time dt h m s us) h m s us = replace_time dt h m s us"
  by (simp_all add: replace_time_def)

lemma business_hours_breakdown_loop_segments:
  "tzinfo current = tzinfo end' \<Longrightarrow>
   business_hours_breakdown_loop cfg current end' segments = Inr res \<Longrightarrow>
   5 \<le> weekday current
     \<or> \<not> tuple_lt (datetime_state current)
            (datetime_state (replace_time current (t_hour (config_start cfg))
                                (t_minute (config_start cfg)) 0 0))
     \<or> tuple_lt (datetime_state (replace_time current (t_hour (config_start cfg))
                                (t_minute (config_start cfg)) 0 0))
          (datetime_state end') \<Longrightarrow>
   \<forall>(a, b) \<in> set segments. tzinfo a = tzinfo b \<and> ordinal a = ordinal b \<and> tuple_lt (datetime_state a) (datetime_state b) \<Longrightarrow>
   \<forall>(a, b) \<in> set res. tzinfo a = tzinfo b \<and> ordinal a = ordinal b \<and> tuple_lt (datetime_state a) (datetime_state b)"
proof (induction cfg current end' segments rule: business_hours_breakdown_loop.induct)
  case (1 cfg current end' segments)
  let ?ds = "replace_time current (t_hour (config_start cfg)) (t_minute (config_start cfg)) 0 0"
  let ?de = "replace_time current (t_hour (config_end cfg)) (t_minute (config_end cfg)) 0 0"
  let ?lt = "\<lambda>a b. tuple_lt (datetime_state a) (datetime_state b)"
  note tz = "1.prems"(1)
  note run = "1.prems"(2)
  note cursor = "1.prems"(3)
  note segs = "1.prems"(4)
  have aligned: "\<not> ?lt c (replace_time c (t_hour (config_start cfg)) (t_minute (config_start cfg)) 0 0)"
    and ctz: "tzinfo c = tzinfo end'"
    if "next_business_start cfg d = Inr c" "tzinfo d = tzinfo end'" for c d
    using next_business_start_Inr [OF that(1)] that(2) tuple_lt_irrefl
    by (simp_all add: replace_time_def)
  show ?case
  proof (cases "?lt current end'")
    case False
    with run tz segs show ?thesis
      by (subst (asm) business_hours_breakdown_loop.simps) (simp add: datetime_lt_same_tz)
  next
    case lt: True
    show ?thesis
    proof (cases "5 \<le> weekday current")
      case True
      from run lt tz True obtain c where c: "next_business_start cfg current = Inr c"
        and rec: "business_hours_breakdown_loop cfg c end' segments = Inr res"
        by (subst (asm) business_hours_breakdown_loop.simps)
           (auto simp: datetime_lt_same_tz split: sum.splits)
      show ?thesis
        using "1.IH"(1) [OF _ _ True c ctz [OF c tz] rec _ segs] lt tz aligned [OF c tz]
        by (simp add: datetime_lt_same_tz)
    next
      case wd: False
      define cur1 where "cur1 = (if ?lt current ?ds then ?ds else current)"
      have cur1_tz: "tzinfo cur1 = tzinfo end'" and cur1_ord: "ordinal cur1 = ordinal current"
        using tz by (simp_all add: cur1_def)
      show ?thesis
      proof (cases "?lt cur1 ?de")
        case False
        from run lt tz wd False obtain c where c: "next_business_start cfg cur1 = Inr c"
          and rec: "business_hours_breakdown_loop cfg c end' segments = Inr res"
          by (subst (asm) business_hours_breakdown_loop.simps)
             (auto simp: datetime_lt_same_tz datetime_ge_same_tz get_business_start_def
                 get_business_end_def cur1_def Let_def split: sum.splits if_splits)
        have "\<forall>(a, b) \<in> set res. tzinfo a = tzinfo b \<and> ordinal a = ordinal b \<and> ?lt a b"
        proof (rule "1.IH"(2) [OF _ _ wd refl refl refl refl _ refl _ _ _ ctz [OF c cur1_tz] rec _ segs])
          show "datetime_lt current end' = Inr True" using lt tz by (simp add: datetime_lt_same_tz)
          show "True = True" ..
          show "datetime_lt current (replace_time current (t_hour (get_business_start cfg))
              (t_minute (get_business_start cfg)) 0 0) = Inr (?lt current ?ds)"
            by (simp add: datetime_lt_same_tz get_business_start_def)
          show "datetime_ge (if ?lt current ?ds then replace_time current (t_hour (get_business_start cfg))
              (t_minute (get_business_start cfg)) 0 0 else current)
              (replace_time current (t_hour (get_business_end cfg))
              (t_minute (get_business_end cfg)) 0 0) = Inr True"
            using False tz
            by (auto simp: datetime_ge_same_tz get_business_start_def get_business_end_def cur1_def)
          show "True = True" ..
          show "next_business_start cfg (if ?lt current ?ds then replace_time current (t_hour (get_business_start cfg))
              (t_minute (get_business_start cfg)) 0 0 else current) = Inr c"
            using c unfolding cur1_def get_business_start_def .
          show "5 \<le> weekday c \<or> \<not> ?lt c (replace_time c (t_hour (config_start cfg)) (t_minute (config_start cfg)) 0 0)
             \<or> ?lt (replace_time c (t_hour (config_start cfg)) (t_minute (config_start cfg)) 0 0) end'"
            using aligned [OF c cur1_tz] by simp
        qed
        then show ?thesis .
      next
        case open_day: True
        define seg_end where "seg_end = (if ?lt end' ?de then end' else ?de)"
        from run lt tz wd open_day obtain c where c: "next_business_start cfg cur1 = Inr c"
          and rec: "business_hours_breakdown_loop cfg c end' (segments @ [(cur1, seg_end)]) = Inr res"
          by (subst (asm) business_hours_breakdown_loop.simps)
             (auto simp: datetime_lt_same_tz datetime_ge_same_tz datetime_min_same_tz
                 get_business_start_def get_business_end_def cur1_def seg_end_def Let_def
               split: sum.splits if_splits)
        have cur1_lt_end: "?lt cur1 end'"
          using cursor wd lt by (auto simp: cur1_def)
        have pos: "?lt cur1 seg_end"
          using cur1_lt_end open_day by (simp add: seg_end_def)
        have same: "ordinal cur1 = ordinal seg_end"
          using tuple_lt_ordinal [OF cur1_lt_end] tuple_lt_ordinal [of end' ?de] cur1_ord
          by (auto simp: seg_end_def)
        have seg_tz: "tzinfo cur1 = tzinfo seg_end"
          using tz by (simp add: cur1_def seg_end_def)
        have segs': "\<forall>(a, b) \<in> set (segments @ [(cur1, seg_end)]). tzinfo a = tzinfo b \<and> ordinal a = ordinal b \<and> ?lt a b"
          using segs pos same seg_tz by auto
        have "\<forall>(a, b) \<in> set res. tzinfo a = tzinfo b \<and> ordinal a = ordinal b \<and> ?lt a b"
        proof (rule "1.IH"(3) [OF _ _ wd refl refl refl refl _ refl _ _ _ _ ctz [OF c cur1_tz] _ _ ])
          show "datetime_lt current end' = Inr True" using lt tz by (simp add: datetime_lt_same_tz)
          show "True = True" ..
          show "datetime_lt current (replace_time current (t_hour (get_business_start cfg))
              (t_minute (get_business_start cfg)) 0 0) = Inr (?lt current ?ds)"
            by (simp add: datetime_lt_same_tz get_business_start_def)
          show "datetime_ge (if ?lt current ?ds then replace_time current (t_hour (get_business_start cfg))
              (t_minute (get_business_start cfg)) 0 0 else current)
              (replace_time current (t_hour (get_business_end cfg))
              (t_minute (get_business_end cfg)) 0 0) = Inr False"
            using open_day tz
            by (auto simp: datetime_ge_same_tz get_business_start_def get_business_end_def cur1_def)
          show "False = False" ..
          show "datetime_min (replace_time current (t_hour (get_business_end cfg))
              (t_minute (get_business_end cfg)) 0 0) end' = Inr seg_end"
            using tz by (simp add: datetime_min_same_tz seg_end_def get_business_end_def)
          show "next_business_start cfg (if ?lt current ?ds then replace_time current (t_hour (get_business_start cfg))
              (t_minute (get_business_start cfg)) 0 0 else current) = Inr c"
            using c unfolding cur1_def get_business_start_def .
          show "business_hours_breakdown_loop cfg c end'
              (segments @ [(if ?lt current ?ds then replace_time current (t_hour (get_business_start cfg))
              (t_minute (get_business_start cfg)) 0 0 else current, seg_end)]) = Inr res"
            using rec unfolding cur1_def get_business_start_def .
          show "5 \<le> weekday c \<or> \<not> ?lt c (replace_time c (t_hour (config_start cfg)) (t_minute (config_start cfg)) 0 0)
             \<or> ?lt (replace_time c (t_hour (config_start cfg)) (t_minute (config_start cfg)) 0 0) end'"
            using aligned [OF c cur1_tz] by simp
          show "\<forall>(a, b) \<in> set (segments @ [(if ?lt current ?ds then replace_time current (t_hour (get_business_start cfg))
              (t_minute (get_business_start cfg)) 0 0 else current, seg_end)]). tzinfo a = tzinfo b \<and> ordinal a = ordinal b \<and> ?lt a b"
            using segs' unfolding cur1_def get_business_start_def .
        qed
        then show ?thesis .
      qed
    qed
  qed
qed

text \<open>
  Where the code is sound. Let \<open>start\<close> and \<open>end\<close> carry the same \<open>tzinfo\<close> (or none). Unless
  \<open>start\<close> falls on a weekday before that day's opening time and \<open>end\<close> is not after the
  opening time, every pair that \<open>business_hours_breakdown\<close> returns lies on one calendar
  day and has its first component strictly before its second.
\<close>

lemma business_hours_breakdown_segments_sound:
  assumes "tzinfo start = tzinfo end'"
    and "business_hours_breakdown cfg start end' = Inr res"
    and "5 \<le> weekday start
     \<or> \<not> tuple_lt (datetime_state start)
            (datetime_state (replace_time start (t_hour (config_start cfg))
                                (t_minute (config_start cfg)) 0 0))
     \<or> tuple_lt (datetime_state (replace_time start (t_hour (config_start cfg))
                                (t_minute (config_start cfg)) 0 0))
          (datetime_state end')"
    and "(a, b) \<in> set res"
  shows "ordinal a = ordinal b \<and> datetime_lt a b = Inr True"
proof -
  have "\<forall>(a, b) \<in> set res.
      tzinfo a = tzinfo b \<and> ordinal a = ordinal b
        \<and> tuple_lt (datetime_state a) (datetime_state b)"
    using business_hours_breakdown_loop_segments [OF assms(1) _ assms(3), of "[]" res] assms(2)
    by (simp add: business_hours_breakdown_def)
  with assms(4) have "tzinfo a = tzinfo b" and "ordinal a = ordinal b"
    and "tuple_lt (datetime_state a) (datetime_state b)"
    by auto
  then show ?thesis
    by (simp add: datetime_lt_same_tz)
qed

subsection \<open>Aggregation\<close>

text \<open>
  C2, at an input where the code departs from it. For Monday 2024-01-08 from 05:00 to
  06:00 (so \<open>start < end\<close>) and the default window, \<open>business_hours_delta\<close> sums the
  one pair (07:00, 06:00) of the breakdown and returns minus one hour.
\<close>

theorem business_hours_delta_negative:
  "datetime_ge (mk_datetime 2024 1 8 5 0) (mk_datetime 2024 1 8 6 0) = Inr False \<and>
   business_hours_delta default_config (mk_datetime 2024 1 8 5 0) (mk_datetime 2024 1 8 6 0)
     = Inr (- 3600000000)"
  by code_simp

lemma datetime_sub_after_compare:
  "datetime_ge a b = Inr r \<Longrightarrow> \<exists>d. datetime_sub b a = Inr d"
  by (auto simp: datetime_ge_def datetime_lt_def datetime_sub_def utcoffset_def Let_def
           split: sum.splits if_splits option.splits)

text \<open>
  C6. When \<open>start >= end\<close>, \<open>hours_breakdown\<close> returns \<open>(0, 0)\<close>. Otherwise \<open>end - start\<close>
  is defined and the result is that of \<open>business_hours_delta\<close> paired with
  \<open>(end - start)\<close> minus it (an exception of \<open>business_hours_delta\<close> is passed on
  unchanged), so whenever a pair is returned its first component is the business
  duration and its two components add up to \<open>end - start\<close>.
\<close>

theorem hours_breakdown_splits_total:
  "(datetime_ge start end' = Inr True \<longrightarrow> hours_breakdown cfg start end' = Inr (0, 0)) \<and>
   (datetime_ge start end' = Inr False \<longrightarrow>
      (\<exists>total'. datetime_sub end' start = Inr total' \<and>
         hours_breakdown cfg start end'
           = (case business_hours_delta cfg start end' of
                Inl e \<Rightarrow> Inl e
              | Inr business \<Rightarrow> Inr (business, total' - business))) \<and>
      (\<forall>business after_hours.
         hours_breakdown cfg start end' = Inr (business, after_hours) \<longrightarrow>
           business_hours_delta cfg start end' = Inr business \<and>
           datetime_sub end' start = Inr (business + after_hours)))"
proof (intro conjI impI)
  assume "datetime_ge start end' = Inr True"
  then show "hours_breakdown cfg start end' = Inr (0, 0)"
    by (simp add: hours_breakdown_def)
next
  assume ge: "datetime_ge start end' = Inr False"
  then obtain d where d: "datetime_sub end' start = Inr d"
    using datetime_sub_after_compare by blast
  with ge show "\<exists>total'. datetime_sub end' start = Inr total' \<and>
         hours_breakdown cfg start end'
           = (case business_hours_delta cfg start end' of
                Inl e \<Rightarrow> Inl e
              | Inr business \<Rightarrow> Inr (business, total' - business))"
    by (simp add: hours_breakdown_def)
  from ge d show "\<forall>business after_hours.
         hours_breakdown cfg start end' = Inr (business, after_hours) \<longrightarrow>
           business_hours_delta cfg start end' = Inr business \<and>
           datetime_sub end' start = Inr (business + after_hours)"
    by (auto simp: hours_breakdown_def split: sum.splits)
qed

theorem hours_breakdown_splits_total_witness:
  "datetime_ge (mk_datetime 2024 1 5 16 0) (mk_datetime 2024 1 8 10 0) = Inr False \<and>
   business_hours_delta default_config (mk_datetime 2024 1 5 16 0) (mk_datetime 2024 1 8 10 0)
     = Inr 32400000000 \<and>
   datetime_sub (mk_datetime 2024 1 8 10 0) (mk_datetime 2024 1 5 16 0) = Inr 237600000000 \<and>
   hours_breakdown default_config (mk_datetime 2024 1 5 16 0) (mk_datetime 2024 1 8 10 0)
     = Inr (32400000000, 205200000000) \<and>
   datetime_ge (mk_datetime 2024 1 8 10 0) (mk_datetime 2024 1 8 10 0) = Inr True \<and>
   hours_breakdown default_config (mk_datetime 2024 1 8 10 0) (mk_datetime 2024 1 8 10 0)
     = Inr (0, 0)"
proof -
  have ge: "datetime_ge (mk_datetime 2024 1 5 16 0) (mk_datetime 2024 1 8 10 0) = Inr False"
    by code_simp
  have delta: "business_hours_delta default_config (mk_datetime 2024 1 5 16 0)
      (mk_datetime 2024 1 8 10 0) = Inr 32400000000"
    by code_simp
  have sub: "datetime_sub (mk_datetime 2024 1 8 10 0) (mk_datetime 2024 1 5 16 0)
      = Inr 237600000000"
    by code_simp
  have ge2: "datetime_ge (mk_datetime 2024 1 8 10 0) (mk_datetime 2024 1 8 10 0) = Inr True"
    by code_simp
  from ge hours_breakdown_splits_total
        [of "mk_datetime 2024 1 5 16 0" "mk_datetime 2024 1 8 10 0" default_config]
  obtain t where t: "datetime_sub (mk_datetime 2024 1 8 10 0) (mk_datetime 2024 1 5 16 0) = Inr t"
    and hb: "hours_breakdown default_config (mk_datetime 2024 1 5 16 0) (mk_datetime 2024 1 8 10 0)
       = (case business_hours_delta default_config (mk_datetime 2024 1 5 16 0)
                 (mk_datetime 2024 1 8 10 0) of
            Inl e \<Rightarrow> Inl e | Inr business \<Rightarrow> Inr (business, t - business))"
    by blast
  from t sub have "t = 237600000000" by simp
  with hb delta have first: "hours_breakdown default_config (mk_datetime 2024 1 5 16 0)
      (mk_datetime 2024 1 8 10 0) = Inr (32400000000, 205200000000)"
    by simp
  from ge2 hours_breakdown_splits_total
        [of "mk_datetime 2024 1 8 10 0" "mk_datetime 2024 1 8 10 0" default_config]
  have same: "hours_breakdown default_config (mk_datetime 2024 1 8 10 0)
      (mk_datetime 2024 1 8 10 0) = Inr (0, 0)"
    by blast
  from ge delta sub first ge2 same show ?thesis
    by (intro conjI)
qed

subsection \<open>The tolerant entry point\<close>

lemma to_datetime_ValueError_iff:
  "to_datetime lib v = Inl ValueError \<longleftrightarrow>
     (\<exists>s. v = PyStr s \<and> fromisoformat lib s = None \<and> strptime lib s ''%Y-%m-%d %H:%M'' = None)"
  by (cases v) (auto simp: to_datetime_def split: option.splits)

lemma to_datetime_TypeError_iff:
  "to_datetime lib v = Inl TypeError \<longleftrightarrow> (\<forall>s. v \<noteq> PyStr s) \<and> (\<forall>dt. v \<noteq> PyDatetime dt)"
  by (cases v) (auto simp: to_datetime_def split: option.splits)

lemma truthy_basic_value:
  "\<forall>t. v \<noteq> PyObject t \<Longrightarrow> \<exists>b. truthy v = Inr b"
  by (cases v) auto

lemma calculate_hours_raises_iff:
  "calculate_hours lib cfg start end' = Inl e \<longleftrightarrow>
     truthy start = Inl e \<or> (truthy start = Inr True \<and> truthy end' = Inl e)"
  by (auto simp: calculate_hours_def split: sum.splits bool.splits)

lemma calculate_hours_truthy:
  "truthy start = Inr True \<Longrightarrow> truthy end' = Inr True \<Longrightarrow>
   calculate_hours lib cfg start end'
     = (case calculate_hours_try lib cfg start end' of
          Inr r \<Rightarrow> Inr r
        | Inl e \<Rightarrow> Inr (Float_zero, [Log_exception ''Error calculating hours'' e]))"
  by (simp add: calculate_hours_def)

lemma reversed_range_outcome:
  assumes "to_datetime lib start = Inr start_dt" and "to_datetime lib end' = Inr end_dt"
    and "datetime_lt end_dt start_dt = Inr True"
  shows "calculate_hours_try lib cfg start end'
           = (if tzinfo start_dt = tzinfo end_dt then Inl ValueError
              else Inr (Float_zero, [Log_error ''start and end time zones differ'']))"
proof (cases "tzinfo start_dt = tzinfo end_dt")
  case True
  with assms show ?thesis by (simp add: calculate_hours_try_def)
next
  case False
  with assms(3) have "tzinfo start_dt \<noteq> None \<and> tzinfo end_dt \<noteq> None"
    by (auto simp: datetime_lt_def datetime_sub_def utcoffset_def
             split: if_splits option.splits)
  with False assms(1,2) show ?thesis by (simp add: calculate_hours_try_def)
qed

text \<open>
  C4 as stated fails in two ways. An endpoint that is a falsy value of an unsupported
  type is not logged: the integer 0 is neither \<open>None\<close> nor the empty string and
  \<open>_to_datetime\<close> would raise \<open>TypeError\<close> on it, yet
  \<open>calculate_hours(0, datetime(2024, 1, 8, 10, 0))\<close> returns \<open>0.0\<close> and logs nothing. And
  the call can raise: the truth test of \<open>start\<close> is made before the \<open>try\<close> block, so an
  object whose truth test raises \<open>ValueError\<close> makes \<open>calculate_hours\<close> raise it.
\<close>

theorem calculate_hours_unsupported_falsy_counterexample:
  "to_datetime rejecting_lib (PyInt 0) = Inl TypeError \<and>
   PyInt 0 \<noteq> PyNone \<and> PyInt 0 \<noteq> PyStr [] \<and>
   calculate_hours rejecting_lib default_config (PyInt 0) (PyDatetime (mk_datetime 2024 1 8 10 0))
     = Inr (Float_zero, []) \<and>
   calculate_hours rejecting_lib default_config (PyObject (Inl ValueError))
       (PyDatetime (mk_datetime 2024 1 8 10 0))
     = Inl ValueError"
  by (simp add: to_datetime_def calculate_hours_def)

text \<open>
  C4, amended. \<open>calculate_hours\<close> raises exactly when a truth test it makes raises (that
  of \<open>start\<close>, or that of \<open>end\<close> once \<open>start\<close> is truthy), and then with that exception;
  no \<open>None\<close>, boolean, integer, string or \<open>datetime\<close> endpoint does that, so on those it
  never raises. If \<open>start\<close> is falsy, or \<open>start\<close> is truthy and \<open>end\<close> is falsy, it
  returns \<open>0.0\<close> and logs nothing. If both are truthy, every exception that leaves the
  \<open>try\<close> block is logged (one \<open>ERROR\<close> record carrying the exception) and \<open>0.0\<close> is
  returned; a failure of \<open>_to_datetime\<close> on either endpoint is such an exception, and so
  is a resolved \<open>end\<close> before the resolved \<open>start\<close> (unless the two carry different time
  zones, which is logged as the mismatch instead). \<open>_to_datetime\<close> raises \<open>ValueError\<close>
  exactly on a string that neither parser accepts and \<open>TypeError\<close> exactly on a value
  that is neither a string nor a \<open>datetime\<close>.
\<close>

theorem calculate_hours_absorbs_failures:
  "(calculate_hours lib cfg start end' = Inl e \<longleftrightarrow>
      truthy start = Inl e \<or> (truthy start = Inr True \<and> truthy end' = Inl e)) \<and>
   ((\<forall>t. start \<noteq> PyObject t) \<and> (\<forall>t. end' \<noteq> PyObject t) \<longrightarrow>
      calculate_hours lib cfg start end' \<noteq> Inl e) \<and>
   (truthy start = Inr False \<or> (truthy start = Inr True \<and> truthy end' = Inr False) \<longrightarrow>
      calculate_hours lib cfg start end' = Inr (Float_zero, [])) \<and>
   (truthy start = Inr True \<and> truthy end' = Inr True \<longrightarrow>
      (calculate_hours_try lib cfg start end' = Inl x \<longrightarrow>
         calculate_hours lib cfg start end'
           = Inr (Float_zero, [Log_exception ''Error calculating hours'' x])) \<and>
      (to_datetime lib start = Inl x \<longrightarrow> calculate_hours_try lib cfg start end' = Inl x) \<and>
      (to_datetime lib start = Inr start_dt \<and> to_datetime lib end' = Inl x \<longrightarrow>
         calculate_hours_try lib cfg start end' = Inl x) \<and>
      (to_datetime lib start = Inr start_dt \<and> to_datetime lib end' = Inr end_dt \<and>
         datetime_lt end_dt start_dt = Inr True \<longrightarrow>
         calculate_hours lib cfg start end'
           = Inr (Float_zero,
                  [if tzinfo start_dt = tzinfo end_dt
                   then Log_exception ''Error calculating hours'' ValueError
                   else Log_error ''start and end time zones differ'']))) \<and>
   (to_datetime lib v = Inl ValueError \<longleftrightarrow>
      (\<exists>s. v = PyStr s \<and> fromisoformat lib s = None
           \<and> strptime lib s ''%Y-%m-%d %H:%M'' = None)) \<and>
   (to_datetime lib v = Inl TypeError \<longleftrightarrow>
      (\<forall>s. v \<noteq> PyStr s) \<and> (\<forall>dt. v \<noteq> PyDatetime dt))"
proof -
  have raises: "calculate_hours lib cfg start end' = Inl e \<longleftrightarrow>
      truthy start = Inl e \<or> (truthy start = Inr True \<and> truthy end' = Inl e)"
    by (rule calculate_hours_raises_iff)
  have never: "(\<forall>t. start \<noteq> PyObject t) \<and> (\<forall>t. end' \<noteq> PyObject t) \<longrightarrow>
      calculate_hours lib cfg start end' \<noteq> Inl e"
  proof (intro impI, elim conjE)
    assume "\<forall>t. start \<noteq> PyObject t" and "\<forall>t. end' \<noteq> PyObject t"
    then obtain b c where "truthy start = Inr b" and "truthy end' = Inr c"
      using truthy_basic_value by blast
    then show "calculate_hours lib cfg start end' \<noteq> Inl e"
      by (simp add: calculate_hours_raises_iff)
  qed
  have missing: "truthy start = Inr False \<or> (truthy start = Inr True \<and> truthy end' = Inr False)
      \<longrightarrow> calculate_hours lib cfg start end' = Inr (Float_zero, [])"
    by (auto simp: calculate_hours_def)
  have caught: "calculate_hours_try lib cfg start end' = Inl x \<longrightarrow>
         calculate_hours lib cfg start end'
           = Inr (Float_zero, [Log_exception ''Error calculating hours'' x])"
    if "truthy start = Inr True \<and> truthy end' = Inr True"
    using that by (simp add: calculate_hours_truthy)
  have parse1: "to_datetime lib start = Inl x \<longrightarrow> calculate_hours_try lib cfg start end' = Inl x"
    by (simp add: calculate_hours_try_def)
  have parse2: "to_datetime lib start = Inr start_dt \<and> to_datetime lib end' = Inl x \<longrightarrow>
         calculate_hours_try lib cfg start end' = Inl x"
    by (simp add: calculate_hours_try_def)
  have reversed: "to_datetime lib start = Inr start_dt \<and> to_datetime lib end' = Inr end_dt \<and>
         datetime_lt end_dt start_dt = Inr True \<longrightarrow>
         calculate_hours lib cfg start end'
           = Inr (Float_zero,
                  [if tzinfo start_dt = tzinfo end_dt
                   then Log_exception ''Error calculating hours'' ValueError
                   else Log_error ''start and end time zones differ''])"
    if "truthy start = Inr True \<and> truthy end' = Inr True"
    using that reversed_range_outcome [of lib start start_dt end' end_dt cfg]
    by (simp add: calculate_hours_truthy)
  show ?thesis
    using raises never missing caught parse1 parse2 reversed
      to_datetime_ValueError_iff [of lib v] to_datetime_TypeError_iff [of lib v]
    by blast
qed

theorem calculate_hours_absorbs_failures_witness:
  "calculate_hours rejecting_lib default_config (PyStr ''bad'') (PyStr ''2024-01-01T10:00'')
     = Inr (Float_zero, [Log_exception ''Error calculating hours'' ValueError]) \<and>
   calculate_hours rejecting_lib default_config (PyInt 5) (PyDatetime (mk_datetime 2024 1 2 9 0))
     = Inr (Float_zero, [Log_exception ''Error calculating hours'' TypeError]) \<and>
   calculate_hours rejecting_lib default_config
       (PyDatetime (mk_datetime 2024 1 2 10 0)) (PyDatetime (mk_datetime 2024 1 2 9 0))
     = Inr (Float_zero, [Log_exception ''Error calculating hours'' ValueError]) \<and>
   calculate_hours rejecting_lib default_config PyNone (PyDatetime (mk_datetime 2024 1 2 9 0))
     = Inr (Float_zero, []) \<and>
   calculate_hours rejecting_lib default_config (PyInt 5) (PyObject (Inl OverflowError))
     = Inl OverflowError"
proof -
  have bad: "to_datetime rejecting_lib (PyStr ''bad'') = Inl ValueError"
    by (simp add: to_datetime_def rejecting_lib_def)
  have five: "to_datetime rejecting_lib (PyInt 5) = Inl TypeError"
    by (simp add: to_datetime_def)
  have lt: "datetime_lt (mk_datetime 2024 1 2 9 0) (mk_datetime 2024 1 2 10 0) = Inr True"
    by code_simp
  have tz: "tzinfo (mk_datetime 2024 1 2 10 0) = tzinfo (mk_datetime 2024 1 2 9 0)"
    by (simp add: mk_datetime_def)
  have c1: "calculate_hours rejecting_lib default_config (PyStr ''bad'')
      (PyStr ''2024-01-01T10:00'')
     = Inr (Float_zero, [Log_exception ''Error calculating hours'' ValueError])"
    using bad calculate_hours_absorbs_failures
      [of rejecting_lib default_config "PyStr ''bad''" "PyStr ''2024-01-01T10:00''" _ ValueError]
    by simp
  have c2: "calculate_hours rejecting_lib default_config (PyInt 5)
      (PyDatetime (mk_datetime 2024 1 2 9 0))
     = Inr (Float_zero, [Log_exception ''Error calculating hours'' TypeError])"
    using five calculate_hours_absorbs_failures
      [of rejecting_lib default_config "PyInt 5" "PyDatetime (mk_datetime 2024 1 2 9 0)" _ TypeError]
    by simp
  have c3: "calculate_hours rejecting_lib default_config
       (PyDatetime (mk_datetime 2024 1 2 10 0)) (PyDatetime (mk_datetime 2024 1 2 9 0))
     = Inr (Float_zero, [Log_exception ''Error calculating hours'' ValueError])"
    using lt tz calculate_hours_absorbs_failures
      [of rejecting_lib default_config "PyDatetime (mk_datetime 2024 1 2 10 0)"
          "PyDatetime (mk_datetime 2024 1 2 9 0)" _ _
          "mk_datetime 2024 1 2 10 0" "mk_datetime 2024 1 2 9 0"]
    by (simp add: to_datetime_def)
  have c4: "calculate_hours rejecting_lib default_config PyNone
      (PyDatetime (mk_datetime 2024 1 2 9 0)) = Inr (Float_zero, [])"
    using calculate_hours_absorbs_failures
      [of rejecting_lib default_config PyNone "PyDatetime (mk_datetime 2024 1 2 9 0)"]
    by simp
  have c5: "calculate_hours rejecting_lib default_config (PyInt 5)
      (PyObject (Inl OverflowError)) = Inl OverflowError"
    using calculate_hours_absorbs_failures
      [of rejecting_lib default_config "PyInt 5" "PyObject (Inl OverflowError)" OverflowError]
    by simp
  from c1 c2 c3 c4 c5 show ?thesis by (intro conjI)
qed



text \<open>
  C5 as stated fails, because the guard compares the \<open>tzinfo\<close> objects and not the UTC
  offsets. \<open>ZoneInfo("UTC")\<close> and \<open>timezone.utc\<close> have the same offset, yet the pair
  2024-01-08 09:00 in the one and 11:00 in the other is logged as a mismatch and gives
  \<open>0.0\<close>. The one object \<open>ZoneInfo("America/New_York")\<close> has offsets of minus five and
  minus four hours on 8 and 11 March 2024, yet for 09:00 on these days nothing is logged
  and the duration, fifteen hours, is computed.
\<close>

theorem calculate_hours_timezone_objects_counterexample:
  "utcoffset (mk_zoned 2024 1 8 9 0 zone_UTC) = Some 0 \<and>
   utcoffset (mk_aware 2024 1 8 11 0 0) = Some 0 \<and>
   calculate_hours rejecting_lib default_config
       (PyDatetime (mk_zoned 2024 1 8 9 0 zone_UTC)) (PyDatetime (mk_aware 2024 1 8 11 0 0))
     = Inr (Float_zero, [Log_error ''start and end time zones differ'']) \<and>
   utcoffset (mk_zoned 2024 3 8 9 0 zone_New_York) = Some (- 18000000000) \<and>
   utcoffset (mk_zoned 2024 3 11 9 0 zone_New_York) = Some (- 14400000000) \<and>
   calculate_hours rejecting_lib default_config
       (PyDatetime (mk_zoned 2024 3 8 9 0 zone_New_York))
       (PyDatetime (mk_zoned 2024 3 11 9 0 zone_New_York))
     = Inr (Rounded_hours 54000000000, [])"
  by code_simp

text \<open>
  C5, amended. Let both endpoints be truthy and resolve to timestamps that carry a
  \<open>tzinfo\<close> object. If the two objects are unequal, \<open>calculate_hours\<close> logs
  \<open>start and end time zones differ\<close> and returns \<open>0.0\<close>; no duration is computed. If
  they are equal, that record is not what is returned: the call goes on to the order
  check and, unless the range is reversed, returns what \<open>business_hours_delta\<close>
  gives (rounded to hours, or logged and \<open>0.0\<close> if it raises). Two fixed-offset
  \<open>timezone\<close> objects are unequal exactly when the UTC offsets of the two timestamps
  differ.
\<close>

theorem calculate_hours_timezone_guard:
  assumes "truthy start = Inr True" and "truthy end' = Inr True"
    and "to_datetime lib start = Inr start_dt" and "to_datetime lib end' = Inr end_dt"
    and "tzinfo start_dt = Some tz1" and "tzinfo end_dt = Some tz2"
  shows "(tz1 \<noteq> tz2 \<longrightarrow>
            calculate_hours lib cfg start end'
              = Inr (Float_zero, [Log_error ''start and end time zones differ''])) \<and>
         (tz1 = tz2 \<longrightarrow>
            calculate_hours lib cfg start end'
              \<noteq> Inr (Float_zero, [Log_error ''start and end time zones differ'']) \<and>
            calculate_hours lib cfg start end'
              = Inr (if tuple_lt (datetime_state end_dt) (datetime_state start_dt)
                     then (Float_zero, [Log_exception ''Error calculating hours'' ValueError])
                     else case business_hours_delta cfg start_dt end_dt of
                            Inl e \<Rightarrow> (Float_zero, [Log_exception ''Error calculating hours'' e])
                          | Inr delta \<Rightarrow> (Rounded_hours delta, []))) \<and>
         (tz1 = Timezone off1 \<and> tz2 = Timezone off2 \<longrightarrow>
            (tz1 \<noteq> tz2) = (utcoffset start_dt \<noteq> utcoffset end_dt))"
proof -
  have differ: "calculate_hours lib cfg start end'
      = Inr (Float_zero, [Log_error ''start and end time zones differ''])" if "tz1 \<noteq> tz2"
    using assms that by (simp add: calculate_hours_truthy calculate_hours_try_def)
  have same: "calculate_hours lib cfg start end'
      = Inr (if tuple_lt (datetime_state end_dt) (datetime_state start_dt)
             then (Float_zero, [Log_exception ''Error calculating hours'' ValueError])
             else case business_hours_delta cfg start_dt end_dt of
                    Inl e \<Rightarrow> (Float_zero, [Log_exception ''Error calculating hours'' e])
                  | Inr delta \<Rightarrow> (Rounded_hours delta, []))" if "tz1 = tz2"
    using assms that
    by (simp add: calculate_hours_truthy calculate_hours_try_def datetime_lt_def
             split: sum.splits)
  have other: "calculate_hours lib cfg start end'
      \<noteq> Inr (Float_zero, [Log_error ''start and end time zones differ''])" if "tz1 = tz2"
    unfolding same [OF that] by (simp split: sum.splits)
  have fixed: "(tz1 \<noteq> tz2) = (utcoffset start_dt \<noteq> utcoffset end_dt)"
    if "tz1 = Timezone off1 \<and> tz2 = Timezone off2"
    using assms(5,6) that by (simp add: utcoffset_def)
  from differ same other fixed show ?thesis by blast
qed

theorem calculate_hours_timezone_guard_witness:
  "calculate_hours rejecting_lib default_config
       (PyDatetime (mk_aware 2024 1 1 10 0 0)) (PyDatetime (mk_aware 2024 1 1 11 0 3600000000))
     = Inr (Float_zero, [Log_error ''start and end time zones differ'']) \<and>
   calculate_hours rejecting_lib default_config
       (PyDatetime (mk_aware 2024 1 8 9 0 3600000000))
       (PyDatetime (mk_aware 2024 1 8 11 0 3600000000))
     = Inr (Rounded_hours 7200000000, [])"
proof -
  have tzs: "tzinfo (mk_aware 2024 1 1 10 0 0) = Some (Timezone 0)"
    "tzinfo (mk_aware 2024 1 1 11 0 3600000000) = Some (Timezone 3600000000)"
    "tzinfo (mk_aware 2024 1 8 9 0 3600000000) = Some (Timezone 3600000000)"
    "tzinfo (mk_aware 2024 1 8 11 0 3600000000) = Some (Timezone 3600000000)"
    by (simp_all add: mk_aware_def)
  have differ: "calculate_hours rejecting_lib default_config
       (PyDatetime (mk_aware 2024 1 1 10 0 0)) (PyDatetime (mk_aware 2024 1 1 11 0 3600000000))
     = Inr (Float_zero, [Log_error ''start and end time zones differ''])"
    using calculate_hours_timezone_guard
      [of "PyDatetime (mk_aware 2024 1 1 10 0 0)"
          "PyDatetime (mk_aware 2024 1 1 11 0 3600000000)" rejecting_lib
          "mk_aware 2024 1 1 10 0 0" "mk_aware 2024 1 1 11 0 3600000000"
          "Timezone 0" "Timezone 3600000000" default_config]
      tzs
    by (simp add: to_datetime_def)
  have order: "tuple_lt (datetime_state (mk_aware 2024 1 8 11 0 3600000000))
      (datetime_state (mk_aware 2024 1 8 9 0 3600000000)) = False"
    by code_simp
  have delta: "business_hours_delta default_config (mk_aware 2024 1 8 9 0 3600000000)
      (mk_aware 2024 1 8 11 0 3600000000) = Inr 7200000000"
    by code_simp
  have equal: "calculate_hours rejecting_lib default_config
       (PyDatetime (mk_aware 2024 1 8 9 0 3600000000))
       (PyDatetime (mk_aware 2024 1 8 11 0 3600000000))
     = Inr (Rounded_hours 7200000000, [])"
    using calculate_hours_timezone_guard
      [of "PyDatetime (mk_aware 2024 1 8 9 0 3600000000)"
          "PyDatetime (mk_aware 2024 1 8 11 0 3600000000)" rejecting_lib
          "mk_aware 2024 1 8 9 0 3600000000" "mk_aware 2024 1 8 11 0 3600000000"
          "Timezone 3600000000" "Timezone 3600000000" default_config]
      tzs order delta
    by (simp add: to_datetime_def)
  from differ equal show ?thesis by (intro conjI)
qed

text \<open>
  C9. Let both endpoints be truthy and resolve to timestamps of which exactly one
  carries a time zone. The mismatch guard does not apply, the comparison
  \<open>end_dt < start_dt\<close> raises \<open>TypeError\<close>, and \<open>calculate_hours\<close> logs that exception and
  returns \<open>0.0\<close>.
\<close>

theorem calculate_hours_mixed_naive_aware:
  assumes "truthy start = Inr True" and "truthy end' = Inr True"
    and "to_datetime lib start = Inr start_dt" and "to_datetime lib end' = Inr end_dt"
    and "(tzinfo start_dt = None) \<noteq> (tzinfo end_dt = None)"
  shows "datetime_lt end_dt start_dt = Inl TypeError \<and>
         calculate_hours lib cfg start end'
           = Inr (Float_zero, [Log_exception ''Error calculating hours'' TypeError])"
proof -
  from assms(5) have lt: "datetime_lt end_dt start_dt = Inl TypeError"
    by (auto simp: datetime_lt_def datetime_sub_def utcoffset_def split: option.splits)
  from assms(5) have guard: "\<not> (tzinfo start_dt \<noteq> None \<and> tzinfo end_dt \<noteq> None
      \<and> tzinfo start_dt \<noteq> tzinfo end_dt)" by auto
  have "calculate_hours_try lib cfg start end' = Inl TypeError"
    using assms(3,4) guard lt by (simp add: calculate_hours_try_def)
  with assms(1,2) lt show ?thesis by (simp add: calculate_hours_truthy)
qed

theorem calculate_hours_mixed_naive_aware_witness:
  "calculate_hours rejecting_lib default_config
     (PyDatetime (mk_datetime 2024 1 8 9 0)) (PyDatetime (mk_aware 2024 1 8 10 0 0))
   = Inr (Float_zero, [Log_exception ''Error calculating hours'' TypeError])"
  using calculate_hours_mixed_naive_aware
    [of "PyDatetime (mk_datetime 2024 1 8 9 0)" "PyDatetime (mk_aware 2024 1 8 10 0 0)"
        rejecting_lib "mk_datetime 2024 1 8 9 0" "mk_aware 2024 1 8 10 0 0" default_config]
  by (simp add: to_datetime_def mk_datetime_def mk_aware_def)

end
